theory Spec2Isabelle
  imports Main
begin

section \<open>The Sprite launcher (src/sprite_cli/main.py)\<close>

text \<open>
  The launcher is a sequence of library calls (\<open>shutil.which\<close>, \<open>Path.exists\<close>,
  \<open>subprocess.run\<close>, \<open>urllib.request.urlopen\<close>, \<open>tempfile\<close>, \<open>os\<close>, \<open>time.sleep\<close>,
  \<open>print\<close>) glued by Python control flow. The embedding keeps the control flow as it is
  written and makes the outside world explicit:
  \<^item> a \<open>world\<close> holds what the launcher can observe and change (what the search path
    resolves, which paths exist) and the \<open>trace\<close> of library calls made so far;
  \<^item> an \<open>env\<close> holds what the launcher cannot control: the home directory, the name the
    temporary file gets, what the download yields and how a spawned process behaves;
  \<^item> a Python exception is a value (\<open>Inl\<close>), with its class and its \<open>str()\<close>.
\<close>

subsection \<open>Exceptions\<close>

text \<open>
  The exception classes the launcher names in a handler, and the ones the library calls
  it makes raise. \<open>mro\<close> lists a class with its base classes as Python has them:
  \<open>KeyboardInterrupt\<close> does not derive from \<open>Exception\<close> (its base, \<open>BaseException\<close>, is
  named by no handler of the launcher and is left out); every other class does;
  \<open>TimeoutExpired\<close> and \<open>CalledProcessError\<close> derive from \<open>SubprocessError\<close>;
  \<open>FileNotFoundError\<close>, \<open>PermissionError\<close> and \<open>URLError\<close> derive from \<open>OSError\<close>.
\<close>

datatype exn_class =
    Exception
  | KeyboardInterrupt
  | OSError
  | FileNotFoundError
  | PermissionError
  | URLError
  | SubprocessError
  | TimeoutExpired
  | CalledProcessError
  | ValueError
  | IndexError
  | UnicodeDecodeError

fun mro :: "exn_class \<Rightarrow> exn_class list" where
  "mro Exception = [Exception]"
| "mro KeyboardInterrupt = [KeyboardInterrupt]"
| "mro OSError = [OSError, Exception]"
| "mro FileNotFoundError = [FileNotFoundError, OSError, Exception]"
| "mro PermissionError = [PermissionError, OSError, Exception]"
| "mro URLError = [URLError, OSError, Exception]"
| "mro SubprocessError = [SubprocessError, Exception]"
| "mro TimeoutExpired = [TimeoutExpired, SubprocessError, Exception]"
| "mro CalledProcessError = [CalledProcessError, SubprocessError, Exception]"
| "mro ValueError = [ValueError, Exception]"
| "mro IndexError = [IndexError, Exception]"
| "mro UnicodeDecodeError = [UnicodeDecodeError, ValueError, Exception]"

record exn =
  cls :: exn_class
  msg :: string

definition isinstance :: "exn \<Rightarrow> exn_class list \<Rightarrow> bool" where
  "isinstance e cs = (\<exists>c \<in> set cs. c \<in> set (mro (cls e)))"

subsection \<open>The world and the environment\<close>

text \<open>
  \<open>completed\<close> is \<open>subprocess.CompletedProcess\<close>. An \<open>event\<close> is one library call, with
  the arguments the launcher passed: \<open>Spawn argv capture timeout\<close> is
  \<open>subprocess.run(argv, capture_output=capture, text=capture, timeout=timeout)\<close>; without
  \<open>capture\<close> the child inherits the launcher's standard streams.
\<close>

record completed =
  returncode :: int
  stdout :: string
  stderr :: string

datatype event =
    is_Which: Which string
  | is_Exists: Exists string
  | is_Spawn: Spawn "string list" bool "nat option"
  | is_Print: Print string
  | is_MkTemp: MkTemp string
  | is_UrlOpen: UrlOpen string
  | is_Write: Write string string
  | is_Chmod: Chmod string nat
  | is_Unlink: Unlink string
  | is_Sleep: Sleep nat

record fsys =
  on_path :: "string \<Rightarrow> string option"
  files :: "string set"

record world =
  fs :: fsys
  trace :: "event list"

record env =
  home :: string
  tmp_name :: string
  fetch :: "string \<Rightarrow> exn + string"
  proc :: "string list \<Rightarrow> nat option \<Rightarrow> fsys \<Rightarrow> (exn + completed) \<times> fsys"

subsection \<open>Sequencing, raising and handling\<close>

type_synonym 'a prog = "world \<Rightarrow> (exn + 'a) \<times> world"

definition ret :: "'a \<Rightarrow> 'a prog" where
  "ret x = (\<lambda>w. (Inr x, w))"

definition raise :: "exn \<Rightarrow> 'a prog" where
  "raise e = (\<lambda>w. (Inl e, w))"

definition bind :: "'a prog \<Rightarrow> ('a \<Rightarrow> 'b prog) \<Rightarrow> 'b prog" where
  "bind m f = (\<lambda>w. case m w of (Inl e, w') \<Rightarrow> (Inl e, w') | (Inr x, w') \<Rightarrow> f x w')"

definition seq :: "unit prog \<Rightarrow> 'b prog \<Rightarrow> 'b prog" where
  "seq m k = bind m (\<lambda>_. k)"

text \<open>
  \<open>try: m except cs1 as e: h1 e except cs2 as e: h2 e\<close> is
  \<open>try_except m [(cs1, h1), (cs2, h2)]\<close>: the first clause that matches the exception
  handles it, and an exception no clause matches passes through.
\<close>

fun handle :: "(exn_class list \<times> (exn \<Rightarrow> 'a prog)) list \<Rightarrow> exn \<Rightarrow> 'a prog" where
  "handle [] e = raise e"
| "handle ((cs, h) # clauses) e = (if isinstance e cs then h e else handle clauses e)"

definition try_except ::
  "'a prog \<Rightarrow> (exn_class list \<times> (exn \<Rightarrow> 'a prog)) list \<Rightarrow> 'a prog" where
  "try_except m clauses =
     (\<lambda>w. case m w of
             (Inl e, w') \<Rightarrow> handle clauses e w'
           | (Inr x, w') \<Rightarrow> (Inr x, w'))"

definition emit :: "event \<Rightarrow> unit prog" where
  "emit ev = (\<lambda>w. (Inr (), w\<lparr>trace := trace w @ [ev]\<rparr>))"

subsection \<open>Library calls\<close>

text \<open>
  Each library call records itself in the trace. The calls whose failure the launcher's
  control flow distinguishes can raise in the model: the download (\<open>urlopen\<close>, \<open>read\<close> and
  \<open>decode\<close> together, as \<open>fetch\<close> of the environment) and \<open>subprocess.run\<close> (\<open>proc\<close> of the
  environment, which also says how the process changed the file system). Spawning a path
  that does not exist raises \<open>FileNotFoundError\<close>, as \<open>execve\<close> does. The search-path
  lookup and the existence test only read the world. \<open>NamedTemporaryFile\<close> creates the
  file \<open>tmp_name\<close>; writing to it and \<open>os.chmod\<close> on it, which nothing can precede, are
  modelled where they succeed. \<open>os.unlink\<close> runs after the install script, which may have
  removed its own file: it removes a path that exists and raises \<open>FileNotFoundError\<close> on
  one that does not. Paths are strings in normal form, so
  that \<open>Path(s)\<close> and \<open>str(p)\<close> are the identity. Every library call returns: a download
  or a process that never ends is outside the model, and the \<open>timeout\<close> of a spawn is
  passed to the environment, which answers \<open>TimeoutExpired\<close> when it expires.
\<close>

definition print :: "string \<Rightarrow> unit prog" where
  "print s = emit (Print s)"

definition shutil_which :: "string \<Rightarrow> string option prog" where
  "shutil_which name = seq (emit (Which name)) (\<lambda>w. (Inr (on_path (fs w) name), w))"

definition path_exists :: "string \<Rightarrow> bool prog" where
  "path_exists p = seq (emit (Exists p)) (\<lambda>w. (Inr (p \<in> files (fs w)), w))"

definition subprocess_run :: "env \<Rightarrow> string list \<Rightarrow> bool \<Rightarrow> nat option \<Rightarrow> completed prog" where
  "subprocess_run E argv capture timeout =
     seq (emit (Spawn argv capture timeout))
       (\<lambda>w. case argv of
               [] \<Rightarrow> (Inl \<lparr>cls = IndexError, msg = ''list index out of range''\<rparr>, w)
             | exe # _ \<Rightarrow>
                 if exe \<notin> files (fs w)
                 then (Inl \<lparr>cls = FileNotFoundError,
                            msg = ''[Errno 2] No such file or directory: '' @ exe\<rparr>, w)
                 else (case proc E argv timeout (fs w) of
                         (r, fs') \<Rightarrow> (r, w\<lparr>fs := fs'\<rparr>)))"

definition named_temporary_file :: "env \<Rightarrow> string prog" where
  "named_temporary_file E =
     seq (emit (MkTemp (tmp_name E)))
       (\<lambda>w. (Inr (tmp_name E), w\<lparr>fs := (fs w)\<lparr>files := insert (tmp_name E) (files (fs w))\<rparr>\<rparr>))"

definition urlopen_read :: "env \<Rightarrow> string \<Rightarrow> string prog" where
  "urlopen_read E url =
     seq (emit (UrlOpen url))
       (\<lambda>w. case fetch E url of Inl e \<Rightarrow> (Inl e, w) | Inr content \<Rightarrow> (Inr content, w))"

definition file_write :: "string \<Rightarrow> string \<Rightarrow> unit prog" where
  "file_write p content = emit (Write p content)"

definition os_chmod :: "string \<Rightarrow> nat \<Rightarrow> unit prog" where
  "os_chmod p mode = emit (Chmod p mode)"

text \<open>The exception of \<open>os.unlink\<close> on a missing path; its text quotes the path.\<close>

definition no_such_file :: "string \<Rightarrow> exn" where
  "no_such_file p =
     \<lparr>cls = FileNotFoundError,
      msg = ''[Errno 2] No such file or directory: '' @ [CHR 0x27] @ p @ [CHR 0x27]\<rparr>"

definition os_unlink :: "string \<Rightarrow> unit prog" where
  "os_unlink p =
     seq (emit (Unlink p))
       (\<lambda>w. if p \<notin> files (fs w) then (Inl (no_such_file p), w)
             else (Inr (), w\<lparr>fs := (fs w)\<lparr>files := files (fs w) - {p}\<rparr>\<rparr>))"

definition time_sleep :: "nat \<Rightarrow> unit prog" where
  "time_sleep n = emit (Sleep n)"

subsection \<open>Constants and messages\<close>

text \<open>
  Strings are byte strings in UTF-8, as the source file stores them: the pictographs of
  the messages are written as their bytes.
\<close>

definition SPRITE_VERSION :: string where
  "SPRITE_VERSION = ''0.1.0''"

definition INSTALL_SCRIPT_URL :: string where
  "INSTALL_SCRIPT_URL =
     ''https://raw.githubusercontent.com/hotaq/Sprit-mutil/main/scripts/install.sh''"

definition rocket :: string where
  "rocket = [CHR 0xF0, CHR 0x9F, CHR 0x9A, CHR 0x80]"

definition inbox :: string where
  "inbox = [CHR 0xF0, CHR 0x9F, CHR 0x93, CHR 0xA5]"

definition wrench :: string where
  "wrench = [CHR 0xF0, CHR 0x9F, CHR 0x94, CHR 0xA7]"

definition check_mark :: string where
  "check_mark = [CHR 0xE2, CHR 0x9C, CHR 0x85]"

definition warning_sign :: string where
  "warning_sign = [CHR 0xE2, CHR 0x9A, CHR 0xA0, CHR 0xEF, CHR 0xB8, CHR 0x8F]"

definition cross_mark :: string where
  "cross_mark = [CHR 0xE2, CHR 0x9D, CHR 0x8C]"

definition waving_hand :: string where
  "waving_hand = [CHR 0xF0, CHR 0x9F, CHR 0x91, CHR 0x8B]"

definition robot :: string where
  "robot = [CHR 0xF0, CHR 0x9F, CHR 0xA4, CHR 0x96]"

definition newline :: string where
  "newline = [CHR 0x0A]"

definition HELP_TEXT :: string where
  "HELP_TEXT = concat (map (\<lambda>l. l @ newline)
     [''Sprite Multi-Agent Workflow Toolkit '' @ robot,
      '''',
      ''USAGE:'',
      ''    sprite [COMMAND] [OPTIONS]'',
      '''',
      ''COMMANDS:'',
      ''    init          Initialize a new multi-agent environment'',
      ''    start         Start a multi-agent session'',
      ''    attach        Attach to an existing session'',
      ''    kill          Terminate a session'',
      ''    status        Show system and session status'',
      ''    agents        Manage AI agents'',
      ''    config        Configuration management'',
      ''    help          Show this help message'',
      '''',
      ''QUICK START:'',
      ''    sprite init --agents 3'',
      ''    sprite start'',
      ''    sprite attach sprite-session'',
      '''',
      ''INSTALLATION:'',
      ''    This Python wrapper will automatically install the Rust binary if needed.'',
      ''    For manual installation, visit: https://github.com/hotaq/Sprit-mutil'',
      '''',
      ''For detailed help, run: sprite help''])"

subsection \<open>get_sprite_binary_path\<close>

text \<open>
  \<open>Path.home() / ".cargo" / "bin" / "sprite"\<close> joins its parts with a slash; \<open>home\<close> is
  written without a trailing one. \<open>if sprite_in_path\<close> is the truth value of an optional
  string: \<open>None\<close> and the empty string are false.
\<close>

definition paths :: "env \<Rightarrow> string list" where
  "paths E =
     [home E @ ''/.cargo/bin/sprite'',
      home E @ ''/.local/bin/sprite'',
      ''/usr/local/bin/sprite'',
      ''/usr/bin/sprite'']"

text \<open>The \<open>for path in paths\<close> loop: the first path that exists, else \<open>None\<close>.\<close>

fun scan_paths :: "string list \<Rightarrow> string option prog" where
  "scan_paths [] = ret None"
| "scan_paths (p # ps) =
     bind (path_exists p) (\<lambda>ex. if ex then ret (Some p) else scan_paths ps)"

definition get_sprite_binary_path :: "env \<Rightarrow> string option prog" where
  "get_sprite_binary_path E =
     bind (shutil_which ''sprite'') (\<lambda>sprite_in_path.
       case sprite_in_path of
         Some s \<Rightarrow> if s \<noteq> [] then ret (Some s) else scan_paths (paths E)
       | None \<Rightarrow> scan_paths (paths E))"

subsection \<open>install_sprite\<close>

text \<open>
  The temporary file object \<open>f\<close> is used for its name only, so the model binds
  \<open>script_path = f.name\<close> at its creation. The mode \<open>0o755\<close> is 493.
\<close>

definition install_sprite :: "env \<Rightarrow> string option prog" where
  "install_sprite E =
     try_except
       (bind (named_temporary_file E) (\<lambda>script_path.
        seq (print (inbox @ '' Downloading installation script...''))
        (bind (urlopen_read E INSTALL_SCRIPT_URL) (\<lambda>script_content.
        seq (file_write script_path script_content)
        (seq (os_chmod script_path 493)
        (seq (print (wrench @ '' Running installation...''))
        (bind (subprocess_run E [script_path] True None) (\<lambda>result.
        seq (os_unlink script_path)
        (if returncode result = 0 then
           seq (print (check_mark @ '' Sprite installed successfully!''))
           (seq (time_sleep 2)
           (bind (get_sprite_binary_path E) (\<lambda>sprite_path.
              case sprite_path of
                Some p \<Rightarrow> ret (Some p)
              | None \<Rightarrow>
                  seq (print (warning_sign @
                         ''  Installation completed but sprite binary not found in PATH''))
                  (seq (print
                         ''Please restart your terminal or add ~/.cargo/bin to your PATH'')
                  (ret None)))))
         else
           seq (print (cross_mark @ '' Installation failed:''))
           (seq (print (stderr result))
           (ret None)))))))))))
       [([Exception],
         \<lambda>e. seq (print (cross_mark @ '' Installation failed: '' @ msg e)) (ret None))]"

subsection \<open>ensure_sprite_installed\<close>

text \<open>
  The \<open>try\<close> around the probe has no \<open>return\<close> in its handler: after a handled exception,
  as after a non-zero exit status, control falls through to the installation. The probe
  yields the path to return, or \<open>None\<close> to go on.
\<close>

definition probe :: "env \<Rightarrow> string \<Rightarrow> string option prog" where
  "probe E sprite_path =
     try_except
       (bind (subprocess_run E [sprite_path, ''--version''] True (Some 10)) (\<lambda>result.
          if returncode result = 0 then ret (Some sprite_path) else ret None))
       [([TimeoutExpired, SubprocessError, FileNotFoundError], \<lambda>e. ret None)]"

definition ensure_sprite_installed :: "env \<Rightarrow> string option prog" where
  "ensure_sprite_installed E =
     bind (get_sprite_binary_path E) (\<lambda>sprite_path.
     bind (case sprite_path of
             None \<Rightarrow> ret None
           | Some p \<Rightarrow>
               bind (path_exists p) (\<lambda>ex. if ex then probe E p else ret None))
       (\<lambda>working.
          case working of
            Some p \<Rightarrow> ret (Some p)
          | None \<Rightarrow>
              seq (print (rocket @ '' Installing Sprite Multi-Agent Toolkit...''))
                (install_sprite E)))"

subsection \<open>run_sprite and main\<close>

definition run_sprite :: "env \<Rightarrow> string list \<Rightarrow> int prog" where
  "run_sprite E args =
     bind (ensure_sprite_installed E) (\<lambda>sprite_path.
       case sprite_path of
         None \<Rightarrow> seq (print (cross_mark @ '' Failed to install or find sprite'')) (ret 1)
       | Some p \<Rightarrow>
           try_except
             (bind (subprocess_run E ([p] @ args) False None) (\<lambda>result.
                ret (returncode result)))
             [([KeyboardInterrupt],
               \<lambda>e. seq (print (newline @ waving_hand @ '' Interrupted by user'')) (ret 130)),
              ([Exception],
               \<lambda>e. seq (print (cross_mark @ '' Error running sprite: '' @ msg e)) (ret 1))])"

text \<open>\<open>main\<close> reads \<open>sys.argv\<close>, the program name first.\<close>

definition main :: "env \<Rightarrow> string list \<Rightarrow> int prog" where
  "main E argv =
     (if length argv > 1 \<and> argv ! 1 \<in> set [''--version'', ''-V'']
      then seq (print (''sprite '' @ SPRITE_VERSION)) (ret 0)
      else if length argv > 1 \<and> argv ! 1 \<in> set [''--help'', ''-h'']
      then seq (print HELP_TEXT) (ret 0)
      else run_sprite E (drop 1 argv))"

subsection \<open>Concrete hosts\<close>

text \<open>
  Small concrete worlds and environments, on which the statements below are evaluated:
  \<open>host hit present\<close> is a machine whose search path resolves \<open>sprite\<close> to \<open>hit\<close> and on
  which the paths \<open>present\<close> exist; \<open>machine behaviour download\<close> is an environment with
  home directory \<open>/home/u\<close> whose processes behave as \<open>behaviour\<close> says and whose download
  yields \<open>download\<close>.
\<close>

definition host :: "string option \<Rightarrow> string list \<Rightarrow> world" where
  "host hit present =
     \<lparr>fs = \<lparr>on_path = (\<lambda>name. if name = ''sprite'' then hit else None),
             files = set present\<rparr>,
      trace = []\<rparr>"

definition exits :: "int \<Rightarrow> string \<Rightarrow> completed" where
  "exits rc err = \<lparr>returncode = rc, stdout = [], stderr = err\<rparr>"

definition machine ::
  "(string list \<Rightarrow> nat option \<Rightarrow> fsys \<Rightarrow> (exn + completed) \<times> fsys) \<Rightarrow> (exn + string) \<Rightarrow> env" where
  "machine behaviour download =
     \<lparr>home = ''/home/u'', tmp_name = ''/tmp/tmpk3x.sh'',
      fetch = (\<lambda>url. download), proc = behaviour\<rparr>"

text \<open>Every process exits with status \<open>rc\<close> and leaves the file system as it is.\<close>

definition all_exit :: "int \<Rightarrow> string list \<Rightarrow> nat option \<Rightarrow> fsys \<Rightarrow> (exn + completed) \<times> fsys" where
  "all_exit rc argv timeout f = (Inr (exits rc []), f)"

text \<open>
  Processes behave as a table says: an argument vector is mapped to its outcome and to the
  paths the process creates; a command the table does not list exits with status 127.
\<close>

definition scripted ::
  "(string list \<times> (exn + completed) \<times> string list) list \<Rightarrow>
     string list \<Rightarrow> nat option \<Rightarrow> fsys \<Rightarrow> (exn + completed) \<times> fsys" where
  "scripted table argv timeout f =
     (case map_of table argv of
        Some (outcome, created) \<Rightarrow> (outcome, f\<lparr>files := files f \<union> set created\<rparr>)
      | None \<Rightarrow> (Inr (exits 127 []), f))"

text \<open>
  A host with a working binary on the search path: its version query exits 0, and
  \<open>sprite status -v\<close> exits 3.
\<close>

definition A_env :: env where
  "A_env = machine (scripted
      [([''/usr/local/bin/sprite'', ''--version''], Inr (exits 0 []), []),
       ([''/usr/local/bin/sprite'', ''status'', ''-v''], Inr (exits 3 []), [])]) (Inr [])"

definition A_host :: world where
  "A_host = host (Some ''/usr/local/bin/sprite'') [''/usr/local/bin/sprite'']"

text \<open>
  A host on which the install script exits 0 and creates \<open>~/.local/bin/sprite\<close>, which
  then runs \<open>start\<close> with exit status 0.
\<close>

definition B_env :: env where
  "B_env = machine (scripted
      [([''/tmp/tmpk3x.sh''], Inr (exits 0 []), [''/home/u/.local/bin/sprite'']),
       ([''/home/u/.local/bin/sprite'', ''start''], Inr (exits 0 []), [])]) (Inr ''#!/bin/sh'')"



text \<open>
  The empty host after a resolver run that found nothing: the world in which the
  installer is then called.
\<close>

definition searched :: world where
  "searched = (host None [])\<lparr>trace :=
     [Which ''sprite'', Exists ''/home/u/.cargo/bin/sprite'',
      Exists ''/home/u/.local/bin/sprite'', Exists ''/usr/local/bin/sprite'',
      Exists ''/usr/bin/sprite'',
      Print (rocket @ '' Installing Sprite Multi-Agent Toolkit...'')]\<rparr>"



definition probing :: "string \<Rightarrow> (exn + completed) \<Rightarrow> env" where
  "probing p outcome =
     machine (scripted [([p, ''--version''], outcome, [])]) (Inr ''#!/bin/sh'')"

definition script_raises :: "exn \<Rightarrow> env" where
  "script_raises e =
     machine (scripted [([''/tmp/tmpk3x.sh''], Inl e, [])]) (Inr ''#!/bin/sh'')"

definition download_raises :: "exn \<Rightarrow> env" where
  "download_raises e = machine (all_exit 0) (Inl e)"

text \<open>
  The world in which the resolver returns on the host of \<open>B_env\<close> with nothing installed
  at first: the search, the installation, and the second search that finds the new binary.
\<close>

definition B_installed :: world where
  "B_installed =
     \<lparr>fs = \<lparr>on_path = (\<lambda>name. None), files = {''/home/u/.local/bin/sprite''}\<rparr>,
      trace = trace searched @
        [MkTemp ''/tmp/tmpk3x.sh'',
         Print (inbox @ '' Downloading installation script...''),
         UrlOpen INSTALL_SCRIPT_URL,
         Write ''/tmp/tmpk3x.sh'' ''#!/bin/sh'',
         Chmod ''/tmp/tmpk3x.sh'' 493,
         Print (wrench @ '' Running installation...''),
         Spawn [''/tmp/tmpk3x.sh''] True None,
         Unlink ''/tmp/tmpk3x.sh'',
         Print (check_mark @ '' Sprite installed successfully!''),
         Sleep 2,
         Which ''sprite'',
         Exists ''/home/u/.cargo/bin/sprite'',
         Exists ''/home/u/.local/bin/sprite'']\<rparr>"

text \<open>
  Exceptions as the library raises them: a failed name resolution during the download, a
  script the kernel cannot execute, a binary without execute permission.
\<close>

definition url_error :: exn where
  "url_error = \<lparr>cls = URLError,
     msg = ''<urlopen error [Errno -3] Temporary failure in name resolution>''\<rparr>"

definition exec_format_error :: exn where
  "exec_format_error = \<lparr>cls = OSError,
     msg = ''[Errno 8] Exec format error: /tmp/tmpk3x.sh''\<rparr>"

definition permission_error :: exn where
  "permission_error = \<lparr>cls = PermissionError,
     msg = ''[Errno 13] Permission denied: /home/u/.cargo/bin/sprite''\<rparr>"

section \<open>Properties\<close>

subsection \<open>Running the model\<close>

lemmas prog_defs = ret_def raise_def bind_def seq_def try_except_def emit_def print_def
  shutil_which_def path_exists_def subprocess_run_def named_temporary_file_def
  urlopen_read_def file_write_def os_chmod_def os_unlink_def time_sleep_def

lemma isinstance_Exception [simp]:
  "isinstance e [Exception] = (cls e \<noteq> KeyboardInterrupt)"
  by (cases "cls e") (simp_all add: isinstance_def)

lemma isinstance_KeyboardInterrupt [simp]:
  "isinstance e [KeyboardInterrupt] = (cls e = KeyboardInterrupt)"
  by (cases "cls e") (simp_all add: isinstance_def)

lemma isinstance_probe [simp]:
  "isinstance e [TimeoutExpired, SubprocessError, FileNotFoundError] =
     (cls e \<in> {TimeoutExpired, CalledProcessError, SubprocessError, FileNotFoundError})"
  by (cases "cls e") (simp_all add: isinstance_def)

text \<open>
  The loop over the candidate paths tests them in order up to the first that exists,
  changes nothing, and yields that path.
\<close>

lemma scan_paths_run:
  "scan_paths ps w =
     (Inr (List.find (\<lambda>p. p \<in> files (fs w)) ps),
      w\<lparr>trace := trace w @
           map Exists (take (Suc (length (takeWhile (\<lambda>p. p \<notin> files (fs w)) ps))) ps)\<rparr>)"
proof (induction ps arbitrary: w)
  case Nil
  show ?case by (simp add: ret_def)
next
  case (Cons p ps)
  show ?case
    by (simp add: Cons.IH bind_def seq_def emit_def path_exists_def ret_def)
qed

lemma gsbp_run:
  "get_sprite_binary_path E w =
     (let hit = (case on_path (fs w) ''sprite'' of Some s \<Rightarrow> s \<noteq> [] | None \<Rightarrow> False) in
      (Inr (if hit then on_path (fs w) ''sprite''
            else List.find (\<lambda>p. p \<in> files (fs w)) (paths E)),
       w\<lparr>trace := trace w @ Which ''sprite'' #
            (if hit then []
             else map Exists
                    (take (Suc (length (takeWhile (\<lambda>p. p \<notin> files (fs w)) (paths E))))
                       (paths E)))\<rparr>))"
  by (simp add: get_sprite_binary_path_def scan_paths_run prog_defs split: option.splits)

lemma gsbp_fs: "fs (snd (get_sprite_binary_path E w)) = fs w"
  by (simp add: gsbp_run Let_def)

lemma gsbp_trace:
  "\<exists>qs. trace (snd (get_sprite_binary_path E w)) = trace w @ qs
       \<and> (\<forall>e \<in> set qs. is_Which e \<or> is_Exists e)"
  by (auto simp add: gsbp_run Let_def)

text \<open>
  The installer and the resolver, run symbolically: each is a case distinction on what
  the environment answers, with the world and the trace that result.
\<close>

lemma install_sprite_run:
  "install_sprite E w =
    (let t = tmp_name E;
         w1 = w\<lparr>fs := (fs w)\<lparr>files := insert t (files (fs w))\<rparr>,
                trace := trace w @
                  [MkTemp t, Print (inbox @ '' Downloading installation script...''),
                   UrlOpen INSTALL_SCRIPT_URL]\<rparr>
     in case fetch E INSTALL_SCRIPT_URL of
       Inl e \<Rightarrow>
         if cls e = KeyboardInterrupt then (Inl e, w1)
         else (Inr None,
               w1\<lparr>trace := trace w1 @ [Print (cross_mark @ '' Installation failed: '' @ msg e)]\<rparr>)
     | Inr content \<Rightarrow>
         let started = trace w1 @
               [Write t content, Chmod t 493, Print (wrench @ '' Running installation...''),
                Spawn [t] True None]
         in case proc E [t] None (fs w1) of
           (Inl e, fs') \<Rightarrow>
             if cls e = KeyboardInterrupt then (Inl e, w1\<lparr>fs := fs', trace := started\<rparr>)
             else (Inr None,
                   w1\<lparr>fs := fs',
                      trace := started @
                        [Print (cross_mark @ '' Installation failed: '' @ msg e)]\<rparr>)
         | (Inr r, fs') \<Rightarrow>
             if t \<notin> files fs' then
               (Inr None,
                w1\<lparr>fs := fs',
                   trace := started @
                     [Unlink t,
                      Print (cross_mark @ '' Installation failed: '' @ msg (no_such_file t))]\<rparr>)
             else
             let w2 = w1\<lparr>fs := fs'\<lparr>files := files fs' - {t}\<rparr>, trace := started @ [Unlink t]\<rparr>
             in if returncode r = 0 then
               let loc = get_sprite_binary_path E
                     (w2\<lparr>trace := trace w2 @
                         [Print (check_mark @ '' Sprite installed successfully!''), Sleep 2]\<rparr>)
               in case fst loc of
                    Inr (Some p) \<Rightarrow> (Inr (Some p), snd loc)
                  | _ \<Rightarrow>
                    (Inr None,
                     (snd loc)\<lparr>trace := trace (snd loc) @
                       [Print (warning_sign @
                          ''  Installation completed but sprite binary not found in PATH''),
                        Print ''Please restart your terminal or add ~/.cargo/bin to your PATH'']\<rparr>)
             else (Inr None,
                   w2\<lparr>trace := trace w2 @
                     [Print (cross_mark @ '' Installation failed:''), Print (stderr r)]\<rparr>))"
  by (simp add: install_sprite_def prog_defs gsbp_run Let_def no_such_file_def
      split: sum.splits prod.splits option.splits)

lemma ensure_run:
  "ensure_sprite_installed E w =
    (let loc = get_sprite_binary_path E w;
         announce = (\<lambda>w'. install_sprite E
            (w'\<lparr>trace := trace w' @
                 [Print (rocket @ '' Installing Sprite Multi-Agent Toolkit...'')]\<rparr>))
     in case fst loc of
       Inr (Some p) \<Rightarrow>
         let w1 = (snd loc)\<lparr>trace := trace (snd loc) @ [Exists p]\<rparr> in
         if p \<in> files (fs w) then
           let w2 = w1\<lparr>trace := trace w1 @ [Spawn [p, ''--version''] True (Some 10)]\<rparr>
           in case proc E [p, ''--version''] (Some 10) (fs w) of
             (Inr r, fs') \<Rightarrow>
               if returncode r = 0 then (Inr (Some p), w2\<lparr>fs := fs'\<rparr>)
               else announce (w2\<lparr>fs := fs'\<rparr>)
           | (Inl e, fs') \<Rightarrow>
               if cls e \<in> {TimeoutExpired, CalledProcessError, SubprocessError,
                           FileNotFoundError}
               then announce (w2\<lparr>fs := fs'\<rparr>)
               else (Inl e, w2\<lparr>fs := fs'\<rparr>)
         else announce w1
     | _ \<Rightarrow> announce (snd loc))"
proof -
  obtain res w1 where loc: "get_sprite_binary_path E w = (Inr res, w1)" and same: "fs w1 = fs w"
    by (simp add: gsbp_run Let_def)
  show ?thesis
  proof (cases res)
    case None
    with loc show ?thesis
      by (simp add: ensure_sprite_installed_def bind_def seq_def ret_def print_def emit_def)
  next
    case (Some p)
    show ?thesis
    proof (cases "p \<in> files (fs w)")
      case False
      with loc Some same show ?thesis
        by (simp add: ensure_sprite_installed_def path_exists_def bind_def seq_def ret_def
            print_def emit_def)
    next
      case True
      obtain out fs' where out: "proc E [p, ''--version''] (Some 10) (fs w) = (out, fs')"
        by (cases "proc E [p, ''--version''] (Some 10) (fs w)")
      from loc Some same True out show ?thesis
        by (cases out)
           (simp_all add: ensure_sprite_installed_def probe_def path_exists_def
              subprocess_run_def try_except_def raise_def bind_def seq_def ret_def print_def
              emit_def)
    qed
  qed
qed


lemma run_sprite_raise:
  assumes "ensure_sprite_installed E w = (Inl e, w1)"
  shows "run_sprite E args w = (Inl e, w1)"
  using assms by (simp add: run_sprite_def prog_defs)

lemma run_sprite_Some:
  assumes "ensure_sprite_installed E w = (Inr (Some p), w1)"
  shows "\<exists>evs. trace (snd (run_sprite E args w)) = trace w1 @ Spawn (p # args) False None # evs
            \<and> (\<forall>e \<in> set evs. is_Print e)"
  using assms
  by (auto simp add: run_sprite_def prog_defs split: sum.splits prod.splits)

lemma main_run_sprite:
  assumes "\<not> (length argv > 1 \<and> argv ! 1 \<in> set [''--version'', ''-V'', ''--help'', ''-h''])"
  shows "main E argv = run_sprite E (drop 1 argv)"
  using assms by (auto simp add: main_def)


lemmas scen_defs = host_def exits_def machine_def all_exit_def scripted_def

lemma A_locate:
  "get_sprite_binary_path A_env A_host =
     (Inr (Some ''/usr/local/bin/sprite''), A_host\<lparr>trace := [Which ''sprite'']\<rparr>)"
  by (simp add: gsbp_run A_env_def A_host_def scen_defs)

lemma A_ensure:
  "ensure_sprite_installed A_env A_host =
     (Inr (Some ''/usr/local/bin/sprite''),
      A_host\<lparr>trace := [Which ''sprite'', Exists ''/usr/local/bin/sprite'',
                        Spawn [''/usr/local/bin/sprite'', ''--version''] True (Some 10)]\<rparr>)"
  by (simp add: ensure_sprite_installed_def probe_def prog_defs gsbp_run Let_def paths_def
        A_env_def A_host_def scen_defs)


lemma nothing_found:
  "home E = ''/home/u'' \<Longrightarrow> ensure_sprite_installed E (host None []) = install_sprite E searched"
  by (simp add: ensure_run gsbp_run Let_def paths_def host_def searched_def)



text \<open>
  What a successful resolution looks like from outside: either the probe of the located
  path was the last call, or the result is that of an installer run.
\<close>

lemma world_eqI: "fs (a::world) = fs b \<Longrightarrow> trace a = trace b \<Longrightarrow> a = b"
  by simp

lemma install_sprite_Some:
  assumes "install_sprite E wi = (Inr (Some p), w2)"
  shows "\<exists>pre. get_sprite_binary_path E (w2\<lparr>trace := pre @ [Sleep 2]\<rparr>) = (Inr (Some p), w2)
            \<and> (\<exists>evs. pre = trace wi @ MkTemp (tmp_name E) # evs)"
proof (cases "fetch E INSTALL_SCRIPT_URL")
  case (Inl e)
  with assms show ?thesis
    by (simp add: install_sprite_run Let_def split: if_splits)
next
  case (Inr content)
  obtain out fs' where out:
    "proc E [tmp_name E] None ((fs wi)\<lparr>files := insert (tmp_name E) (files (fs wi))\<rparr>) = (out, fs')"
    by (cases "proc E [tmp_name E] None ((fs wi)\<lparr>files := insert (tmp_name E) (files (fs wi))\<rparr>)")
  show ?thesis
  proof (cases out)
    case (Inl e)
    with assms Inr out show ?thesis
      by (simp add: install_sprite_run Let_def split: if_splits)
  next
    case r: (Inr r)
    let ?pre = "trace wi @
            [MkTemp (tmp_name E),
             Print (inbox @ '' Downloading installation script...''),
             UrlOpen INSTALL_SCRIPT_URL,
             Write (tmp_name E) content,
             Chmod (tmp_name E) 493,
             Print (wrench @ '' Running installation...''),
             Spawn [tmp_name E] True None,
             Unlink (tmp_name E),
             Print (check_mark @ '' Sprite installed successfully!'')]"
    let ?ws = "wi\<lparr>fs := fs'\<lparr>files := files fs' - {tmp_name E}\<rparr>, trace := ?pre @ [Sleep 2]\<rparr>"
    from assms Inr out r have there: "tmp_name E \<in> files fs'"
      by (simp add: install_sprite_run Let_def split: if_splits)
    from assms Inr out r there have zero: "returncode r = 0"
      by (simp add: install_sprite_run Let_def split: if_splits)
    obtain found w3 where loc: "get_sprite_binary_path E ?ws = (Inr found, w3)"
      by (simp add: gsbp_run Let_def)
    from assms Inr out r there zero loc have res: "found = Some p" "w3 = w2"
      by (auto simp add: install_sprite_run Let_def split: option.splits)
    have "fs w2 = fs ?ws" using gsbp_fs [of E ?ws] loc res by simp
    then have "w2\<lparr>trace := ?pre @ [Sleep 2]\<rparr> = ?ws"
      by (intro world_eqI) simp_all
    with loc res have "get_sprite_binary_path E (w2\<lparr>trace := ?pre @ [Sleep 2]\<rparr>) = (Inr (Some p), w2)"
      by simp
    then show ?thesis by (intro exI [of _ ?pre]) simp
  qed
qed

lemma ensure_Some_cases:
  assumes "ensure_sprite_installed E w = (Inr (Some p), w2)"
  shows "(\<exists>qs. trace w2 = trace w @ qs @ [Exists p, Spawn [p, ''--version''] True (Some 10)]
             \<and> (\<forall>e \<in> set qs. is_Which e \<or> is_Exists e))
       \<or> (\<exists>wi evs. install_sprite E wi = (Inr (Some p), w2) \<and> trace wi = trace w @ evs)"
proof -
  obtain found w1 where loc: "get_sprite_binary_path E w = (Inr found, w1)"
    by (simp add: gsbp_run Let_def)
  obtain qs where qs: "trace w1 = trace w @ qs" "\<forall>e \<in> set qs. is_Which e \<or> is_Exists e"
    using gsbp_trace [of E w] loc by auto
  show ?thesis
  proof (cases found)
    case None
    with assms loc qs(1) show ?thesis
      by (auto simp add: ensure_run Let_def)
  next
    case (Some q)
    show ?thesis
    proof (cases "q \<in> files (fs w)")
      case False
      with assms loc Some qs(1) show ?thesis
        by (auto simp add: ensure_run Let_def)
    next
      case True
      obtain out fs' where out: "proc E [q, ''--version''] (Some 10) (fs w) = (out, fs')"
        by (cases "proc E [q, ''--version''] (Some 10) (fs w)")
      show ?thesis
      proof (cases out)
        case (Inl e)
        with assms loc Some True out qs(1) show ?thesis
          by (auto simp add: ensure_run Let_def split: if_splits)
      next
        case (Inr r)
        show ?thesis
        proof (cases "returncode r = 0")
          case True
          with assms loc Some \<open>q \<in> files (fs w)\<close> out Inr qs show ?thesis
            by (auto simp add: ensure_run Let_def)
        next
          case False
          with assms loc Some \<open>q \<in> files (fs w)\<close> out Inr qs(1) show ?thesis
            by (auto simp add: ensure_run Let_def)
        qed
      qed
    qed
  qed
qed

lemma B_ensure:
  "ensure_sprite_installed B_env (host None []) =
     (Inr (Some ''/home/u/.local/bin/sprite''), B_installed)"
proof -
  have "ensure_sprite_installed B_env (host None []) = install_sprite B_env searched"
    by (rule nothing_found) (simp add: B_env_def machine_def)
  also have "\<dots> = (Inr (Some ''/home/u/.local/bin/sprite''), B_installed)"
    by (simp add: install_sprite_run gsbp_run Let_def paths_def B_env_def searched_def
        B_installed_def scen_defs)
  finally show ?thesis .
qed

subsection \<open>The locator\<close>

text \<open>
  C4. The locator's priority order. A non-empty search-path hit is returned whatever the
  static list holds. Without one, the result is the first path that exists among
  \<open>~/.cargo/bin/sprite\<close>, \<open>~/.local/bin/sprite\<close>, \<open>/usr/local/bin/sprite\<close>,
  \<open>/usr/bin/sprite\<close>, in this order (the user's directories before the system's), and
  \<open>None\<close> when none exists. The locator leaves the file system as it is, and the only
  library calls it makes are the search-path lookup and existence tests.
\<close>

theorem locator_priority:
  "(\<forall>s. on_path (fs w) ''sprite'' = Some s \<and> s \<noteq> [] \<longrightarrow>
        fst (get_sprite_binary_path E w) = Inr (Some s))
   \<and> (on_path (fs w) ''sprite'' = None \<or> on_path (fs w) ''sprite'' = Some [] \<longrightarrow>
        fst (get_sprite_binary_path E w) =
          Inr (List.find (\<lambda>p. p \<in> files (fs w))
                 [home E @ ''/.cargo/bin/sprite'', home E @ ''/.local/bin/sprite'',
                  ''/usr/local/bin/sprite'', ''/usr/bin/sprite'']))
   \<and> fs (snd (get_sprite_binary_path E w)) = fs w
   \<and> (\<exists>evs. trace (snd (get_sprite_binary_path E w)) = trace w @ evs
          \<and> (\<forall>e \<in> set evs. is_Which e \<or> is_Exists e))"
  by (auto simp add: gsbp_run Let_def paths_def)

theorem locator_priority_witness:
  "on_path (fs (host (Some ''/opt/bin/sprite'') [''/usr/bin/sprite''])) ''sprite''
     = Some ''/opt/bin/sprite''
   \<and> fst (get_sprite_binary_path (machine (all_exit 0) (Inr []))
            (host (Some ''/opt/bin/sprite'') [''/usr/bin/sprite'']))
     = Inr (Some ''/opt/bin/sprite'')
   \<and> on_path (fs (host None [''/usr/bin/sprite'', ''/home/u/.local/bin/sprite''])) ''sprite''
     = None
   \<and> fst (get_sprite_binary_path (machine (all_exit 0) (Inr []))
            (host None [''/usr/bin/sprite'', ''/home/u/.local/bin/sprite'']))
     = Inr (Some ''/home/u/.local/bin/sprite'')"
proof -
  let ?E = "machine (all_exit 0) (Inr [])"
  let ?w1 = "host (Some ''/opt/bin/sprite'') [''/usr/bin/sprite'']"
  let ?w2 = "host None [''/usr/bin/sprite'', ''/home/u/.local/bin/sprite'']"
  have h1: "on_path (fs ?w1) ''sprite'' = Some ''/opt/bin/sprite''"
    by (simp add: host_def)
  have h2: "on_path (fs ?w2) ''sprite'' = None"
    by (simp add: host_def)
  from locator_priority [of ?w1 ?E] h1
  have c1: "fst (get_sprite_binary_path ?E ?w1) = Inr (Some ''/opt/bin/sprite'')"
    by blast
  from locator_priority [of ?w2 ?E] h2
  have "fst (get_sprite_binary_path ?E ?w2) =
          Inr (List.find (\<lambda>p. p \<in> files (fs ?w2))
                 [home ?E @ ''/.cargo/bin/sprite'', home ?E @ ''/.local/bin/sprite'',
                  ''/usr/local/bin/sprite'', ''/usr/bin/sprite''])"
    by blast
  then have c2: "fst (get_sprite_binary_path ?E ?w2) = Inr (Some ''/home/u/.local/bin/sprite'')"
    by (simp add: host_def machine_def)
  from h1 c1 h2 c2 show ?thesis by blast
qed

subsection \<open>The informational flags\<close>

text \<open>
  C6. When the first argument after the program name is \<open>--version\<close> or \<open>-V\<close>, \<open>main\<close>
  prints \<open>sprite 0.1.0\<close> and returns 0; when it is \<open>--help\<close> or \<open>-h\<close>, \<open>main\<close> prints the
  usage text and returns 0. In both cases the printing is the only library call made and
  the file system is untouched: no search, no probe, no download, no installation, no
  delegation.
\<close>

theorem flags_short_circuit:
  "(a \<in> set [''--version'', ''-V''] \<longrightarrow>
      main E (prog # a # rest) w = (Inr 0, w\<lparr>trace := trace w @ [Print ''sprite 0.1.0'']\<rparr>))
   \<and> (a \<in> set [''--help'', ''-h''] \<longrightarrow>
      main E (prog # a # rest) w = (Inr 0, w\<lparr>trace := trace w @ [Print HELP_TEXT]\<rparr>))"
  by (auto simp add: main_def prog_defs SPRITE_VERSION_def)

theorem flags_short_circuit_witness:
  "''-V'' \<in> set [''--version'', ''-V'']
   \<and> main (machine (all_exit 0) (Inr [])) [''sprite'', ''-V'', ''start''] (host None [])
       = (Inr 0, (host None [])\<lparr>trace := [Print ''sprite 0.1.0'']\<rparr>)
   \<and> ''--help'' \<in> set [''--help'', ''-h'']
   \<and> main (machine (all_exit 0) (Inr [])) [''sprite'', ''--help''] (host None [])
       = (Inr 0, (host None [])\<lparr>trace := [Print HELP_TEXT]\<rparr>)"
proof -
  let ?E = "machine (all_exit 0) (Inr [])"
  have t: "trace (host None []) = []" by (simp add: host_def)
  have h1: "''-V'' \<in> set [''--version'', ''-V'']" by simp
  have h2: "''--help'' \<in> set [''--help'', ''-h'']" by simp
  from flags_short_circuit [of "''-V''" ?E "''sprite''" "[''start'']" "host None []"] h1
  have c1: "main ?E [''sprite'', ''-V'', ''start''] (host None [])
       = (Inr 0, (host None [])\<lparr>trace := trace (host None []) @ [Print ''sprite 0.1.0'']\<rparr>)"
    by blast
  from flags_short_circuit [of "''--help''" ?E "''sprite''" "[]" "host None []"] h2
  have c2: "main ?E [''sprite'', ''--help''] (host None [])
       = (Inr 0, (host None [])\<lparr>trace := trace (host None []) @ [Print HELP_TEXT]\<rparr>)"
    by blast
  from h1 h2 c1 c2 show ?thesis by (simp add: t)
qed

subsection \<open>Delegation\<close>

text \<open>
  C5. For an argument vector that does not start with a version or help flag, once the
  resolver has produced a path and the spawned binary runs to completion, \<open>main\<close> makes
  exactly one further library call: it spawns that path followed by the arguments after
  the program name, unchanged, with no capture (the child inherits the standard streams)
  and no timeout, and returns the child's exit status as it is.
\<close>

theorem delegate_exit_status:
  assumes "\<not> (length argv > 1 \<and> argv ! 1 \<in> set [''--version'', ''-V'', ''--help'', ''-h''])"
    and "ensure_sprite_installed E w = (Inr (Some p), w1)"
    and "p \<in> files (fs w1)"
    and "proc E (p # drop 1 argv) None (fs w1) = (Inr r, fs')"
  shows "main E argv w =
           (Inr (returncode r),
            w1\<lparr>fs := fs', trace := trace w1 @ [Spawn (p # drop 1 argv) False None]\<rparr>)"
  using assms(2-4) by (simp add: main_run_sprite [OF assms(1)] run_sprite_def prog_defs)

theorem delegate_exit_status_witness:
  "\<not> (length [''sprite'', ''status'', ''-v''] > 1
        \<and> [''sprite'', ''status'', ''-v''] ! 1 \<in> set [''--version'', ''-V'', ''--help'', ''-h''])
   \<and> fst (ensure_sprite_installed A_env A_host) = Inr (Some ''/usr/local/bin/sprite'')
   \<and> main A_env [''sprite'', ''status'', ''-v''] A_host =
       (Inr 3,
        A_host\<lparr>trace := [Which ''sprite'', Exists ''/usr/local/bin/sprite'',
                          Spawn [''/usr/local/bin/sprite'', ''--version''] True (Some 10),
                          Spawn [''/usr/local/bin/sprite'', ''status'', ''-v''] False None]\<rparr>)"
proof -
  let ?p = "''/usr/local/bin/sprite''"
  let ?argv = "[''sprite'', ''status'', ''-v'']"
  let ?w1 = "A_host\<lparr>trace := [Which ''sprite'', Exists ?p,
                                 Spawn [?p, ''--version''] True (Some 10)]\<rparr>"
  have h1: "\<not> (length ?argv > 1 \<and> ?argv ! 1 \<in> set [''--version'', ''-V'', ''--help'', ''-h''])"
    by simp
  have h2: "ensure_sprite_installed A_env A_host = (Inr (Some ?p), ?w1)"
    by (rule A_ensure)
  have h3: "?p \<in> files (fs ?w1)"
    by (simp add: A_host_def host_def)
  have h4: "proc A_env (?p # drop 1 ?argv) None (fs ?w1) = (Inr (exits 3 []), fs ?w1)"
    by (simp add: A_env_def A_host_def scen_defs)
  have "main A_env ?argv A_host =
          (Inr (returncode (exits 3 [])),
           ?w1\<lparr>fs := fs ?w1, trace := trace ?w1 @ [Spawn (?p # drop 1 ?argv) False None]\<rparr>)"
    by (rule delegate_exit_status [OF h1 h2 h3 h4])
  then have c: "main A_env ?argv A_host =
       (Inr 3,
        A_host\<lparr>trace := [Which ''sprite'', Exists ?p,
                          Spawn [?p, ''--version''] True (Some 10),
                          Spawn [?p, ''status'', ''-v''] False None]\<rparr>)"
    by (simp add: exits_def)
  from h1 h2 c show ?thesis by simp
qed

subsection \<open>The happy path\<close>

text \<open>
  C3. When the locator finds a path that exists and whose version query exits 0, the
  resolver returns that path after the probe, and the whole run of the launcher consists
  of the locator's queries, the existence test, the probe and the delegation to that
  path, followed by prints only. No temporary file is created: the installer, whose first
  library call creates it, is never called.
\<close>

theorem happy_path_no_install:
  assumes "get_sprite_binary_path E w = (Inr (Some p), w1)"
    and "p \<in> files (fs w)"
    and "proc E [p, ''--version''] (Some 10) (fs w) = (Inr r, fs')"
    and "returncode r = 0"
  shows "ensure_sprite_installed E w =
           (Inr (Some p),
            w1\<lparr>fs := fs',
               trace := trace w1 @ [Exists p, Spawn [p, ''--version''] True (Some 10)]\<rparr>)
     \<and> (\<exists>qs evs.
           trace (snd (run_sprite E args w)) =
             trace w @ qs @
               [Exists p, Spawn [p, ''--version''] True (Some 10), Spawn (p # args) False None]
               @ evs
         \<and> (\<forall>e \<in> set qs. is_Which e \<or> is_Exists e)
         \<and> (\<forall>e \<in> set evs. is_Print e))
     \<and> \<not> list_ex is_MkTemp (drop (length (trace w)) (trace (snd (run_sprite E args w))))"
proof -
  let ?w2 = "w1\<lparr>fs := fs',
               trace := trace w1 @ [Exists p, Spawn [p, ''--version''] True (Some 10)]\<rparr>"
  have ens: "ensure_sprite_installed E w = (Inr (Some p), ?w2)"
    using assms by (simp add: ensure_run Let_def)
  obtain qs where qs: "trace w1 = trace w @ qs" "\<forall>e \<in> set qs. is_Which e \<or> is_Exists e"
    using gsbp_trace [of E w] assms(1) by auto
  obtain evs where evs:
    "trace (snd (run_sprite E args w)) = trace ?w2 @ Spawn (p # args) False None # evs"
    "\<forall>e \<in> set evs. is_Print e"
    using run_sprite_Some [OF ens, of args] by blast
  have tr: "trace (snd (run_sprite E args w)) =
      trace w @ qs @
        [Exists p, Spawn [p, ''--version''] True (Some 10), Spawn (p # args) False None] @ evs"
    using evs(1) qs(1) by simp
  have "\<forall>e \<in> set (qs @ [Exists p, Spawn [p, ''--version''] True (Some 10),
                         Spawn (p # args) False None] @ evs). \<not> is_MkTemp e"
    using qs(2) evs(2) by auto
  then have "\<not> list_ex is_MkTemp (drop (length (trace w)) (trace (snd (run_sprite E args w))))"
    unfolding tr by (simp add: list_ex_iff)
  with ens tr qs(2) evs(2) show ?thesis by blast
qed

theorem happy_path_no_install_witness:
  "get_sprite_binary_path A_env A_host =
     (Inr (Some ''/usr/local/bin/sprite''), A_host\<lparr>trace := [Which ''sprite'']\<rparr>)
   \<and> ''/usr/local/bin/sprite'' \<in> files (fs A_host)
   \<and> proc A_env [''/usr/local/bin/sprite'', ''--version''] (Some 10) (fs A_host)
       = (Inr (exits 0 []), fs A_host)
   \<and> returncode (exits 0 []) = 0
   \<and> fst (ensure_sprite_installed A_env A_host) = Inr (Some ''/usr/local/bin/sprite'')
   \<and> \<not> list_ex is_MkTemp
         (drop (length (trace A_host)) (trace (snd (run_sprite A_env [''start''] A_host))))"
proof -
  let ?p = "''/usr/local/bin/sprite''"
  have h1: "get_sprite_binary_path A_env A_host =
     (Inr (Some ?p), A_host\<lparr>trace := [Which ''sprite'']\<rparr>)"
    by (rule A_locate)
  have h2: "?p \<in> files (fs A_host)"
    by (simp add: A_host_def host_def)
  have h3: "proc A_env [?p, ''--version''] (Some 10) (fs A_host) = (Inr (exits 0 []), fs A_host)"
    by (simp add: A_env_def A_host_def scen_defs)
  have h4: "returncode (exits 0 []) = 0"
    by (simp add: exits_def)
  note c = happy_path_no_install [OF h1 h2 h3 h4, of "[''start'']"]
  from c have c1: "fst (ensure_sprite_installed A_env A_host) = Inr (Some ?p)"
    by simp
  from c have c2: "\<not> list_ex is_MkTemp
         (drop (length (trace A_host)) (trace (snd (run_sprite A_env [''start''] A_host))))"
    by blast
  from h1 h2 h3 h4 c1 c2 show ?thesis by blast
qed

subsection \<open>The installer's outcomes\<close>







subsection \<open>Interrupts and other exceptions\<close>




subsection \<open>The freshly installed binary\<close>

text \<open>
  C10. When the resolver returns a path and the installer ran on the way (a temporary
  file was created), the world it returns in is the one the locator's run after the
  two-unit pause produced, with that path as the locator's result: after the pause come
  only the locator's lookups, no spawn. The launcher's next library call is the
  delegation to that path. The binary the installer found is never probed.
\<close>

theorem fresh_install_unprobed:
  assumes "ensure_sprite_installed E w = (Inr (Some p), w2)"
    and "list_ex is_MkTemp (drop (length (trace w)) (trace w2))"
  shows "\<exists>pre qs.
       get_sprite_binary_path E (w2\<lparr>trace := pre @ [Sleep 2]\<rparr>) = (Inr (Some p), w2)
     \<and> (\<exists>evs. pre = trace w @ evs)
     \<and> trace w2 = pre @ [Sleep 2] @ qs
     \<and> (\<forall>e \<in> set qs. is_Which e \<or> is_Exists e)
     \<and> (\<exists>evs. trace (snd (run_sprite E args w)) = trace w2 @ Spawn (p # args) False None # evs)"
proof -
  from ensure_Some_cases [OF assms(1)]
  obtain wi evs0 where inst: "install_sprite E wi = (Inr (Some p), w2)"
    and wi: "trace wi = trace w @ evs0"
  proof
    assume "\<exists>qs. trace w2 = trace w @ qs @ [Exists p, Spawn [p, ''--version''] True (Some 10)]
             \<and> (\<forall>e \<in> set qs. is_Which e \<or> is_Exists e)"
    then obtain qs where "trace w2 = trace w @ qs @ [Exists p, Spawn [p, ''--version''] True (Some 10)]"
      and "\<forall>e \<in> set qs. is_Which e \<or> is_Exists e" by blast
    then have "\<not> list_ex is_MkTemp (drop (length (trace w)) (trace w2))"
      by (auto simp add: list_ex_iff)
    with assms(2) show ?thesis by simp
  next
    assume "\<exists>wi evs. install_sprite E wi = (Inr (Some p), w2) \<and> trace wi = trace w @ evs"
    then show ?thesis using that by blast
  qed
  from install_sprite_Some [OF inst] obtain pre evs1 where
    loc: "get_sprite_binary_path E (w2\<lparr>trace := pre @ [Sleep 2]\<rparr>) = (Inr (Some p), w2)"
    and pre: "pre = trace wi @ MkTemp (tmp_name E) # evs1"
    by blast
  from gsbp_trace [of E "w2\<lparr>trace := pre @ [Sleep 2]\<rparr>"] loc
  obtain qs where qs: "trace w2 = pre @ [Sleep 2] @ qs" "\<forall>e \<in> set qs. is_Which e \<or> is_Exists e"
    by auto
  from run_sprite_Some [OF assms(1), of args]
  obtain evs where run: "trace (snd (run_sprite E args w)) = trace w2 @ Spawn (p # args) False None # evs"
    by blast
  from pre wi have "\<exists>evs. pre = trace w @ evs" by simp
  with loc qs run show ?thesis by blast
qed

theorem fresh_install_unprobed_witness:
  "ensure_sprite_installed B_env (host None []) =
     (Inr (Some ''/home/u/.local/bin/sprite''), B_installed)
   \<and> list_ex is_MkTemp (drop (length (trace (host None []))) (trace B_installed))
   \<and> (\<exists>evs. trace (snd (run_sprite B_env [''start''] (host None []))) =
          trace B_installed @ Spawn [''/home/u/.local/bin/sprite'', ''start''] False None # evs)"
proof -
  have h2: "list_ex is_MkTemp (drop (length (trace (host None []))) (trace B_installed))"
    by (simp add: host_def B_installed_def searched_def)
  from fresh_install_unprobed [OF B_ensure h2, of "[''start'']"]
  have "\<exists>evs. trace (snd (run_sprite B_env [''start''] (host None []))) =
          trace B_installed @ Spawn [''/home/u/.local/bin/sprite'', ''start''] False None # evs"
    by blast
  with B_ensure h2 show ?thesis by blast
qed

subsection \<open>Where the code misses its own intent\<close>

text \<open>
  Once the install script's process has returned, with whatever status, the temporary
  file is gone when the installer returns: \<open>os.unlink\<close> removed it, or the script had.
\<close>

lemma script_removed_when_run_returns:
  assumes "fetch E INSTALL_SCRIPT_URL = Inr content"
    and "proc E [tmp_name E] None ((fs w)\<lparr>files := insert (tmp_name E) (files (fs w))\<rparr>)
           = (Inr r, fs')"
  shows "tmp_name E \<notin> files (fs (snd (install_sprite E w)))"
proof (cases "tmp_name E \<in> files fs'")
  case False
  with assms show ?thesis
    by (simp add: install_sprite_run Let_def)
next
  case there: True
  show ?thesis
  proof (cases "returncode r = 0")
    case False
    with assms there show ?thesis
      by (simp add: install_sprite_run Let_def)
  next
    case True
    with assms there show ?thesis
      by (simp add: install_sprite_run Let_def gsbp_fs split: sum.splits option.splits)
  qed
qed

text \<open>
  C1. The installer removes its temporary file only on that path. When the download
  raises after the file was created, or when the spawn of the script raises, the handler
  prints the failure and returns \<open>None\<close>, with no \<open>os.unlink\<close>: the file is still there
  when \<open>install_sprite\<close> returns. The property asks for its removal on these paths too.
\<close>

theorem temp_file_left_behind:
  "install_sprite (download_raises url_error) (host None []) =
     (Inr None,
      \<lparr>fs = \<lparr>on_path = (\<lambda>name. None), files = {''/tmp/tmpk3x.sh''}\<rparr>,
       trace =
         [MkTemp ''/tmp/tmpk3x.sh'',
          Print (inbox @ '' Downloading installation script...''),
          UrlOpen INSTALL_SCRIPT_URL,
          Print (cross_mark @ '' Installation failed: '' @ msg url_error)]\<rparr>)
   \<and> install_sprite (script_raises exec_format_error) (host None []) =
     (Inr None,
      \<lparr>fs = \<lparr>on_path = (\<lambda>name. None), files = {''/tmp/tmpk3x.sh''}\<rparr>,
       trace =
         [MkTemp ''/tmp/tmpk3x.sh'',
          Print (inbox @ '' Downloading installation script...''),
          UrlOpen INSTALL_SCRIPT_URL,
          Write ''/tmp/tmpk3x.sh'' ''#!/bin/sh'',
          Chmod ''/tmp/tmpk3x.sh'' 493,
          Print (wrench @ '' Running installation...''),
          Spawn [''/tmp/tmpk3x.sh''] True None,
          Print (cross_mark @ '' Installation failed: '' @ msg exec_format_error)]\<rparr>)"
  by (simp add: install_sprite_run Let_def download_raises_def script_raises_def
      url_error_def exec_format_error_def scen_defs)

text \<open>
  The probe of an existing path, case by case: only a zero exit status yields the path;
  a non-zero status and the handled exceptions yield \<open>None\<close>, which sends the resolver to
  the installer; every other exception is raised to the caller.
\<close>

lemma probe_classification:
  assumes "p \<in> files (fs w)"
  shows "fst (probe E p w) =
     (case proc E [p, ''--version''] (Some 10) (fs w) of
        (Inr r, fs') \<Rightarrow> if returncode r = 0 then Inr (Some p) else Inr None
      | (Inl e, fs') \<Rightarrow>
          if cls e \<in> {TimeoutExpired, CalledProcessError, SubprocessError, FileNotFoundError}
          then Inr None else Inl e)"
  using assms
  by (simp add: probe_def prog_defs split: prod.splits sum.splits)

text \<open>
  C2. The probe's handler names \<open>TimeoutExpired\<close>, \<open>SubprocessError\<close> and
  \<open>FileNotFoundError\<close>. A binary that exists without execute permission makes the spawn
  raise \<open>PermissionError\<close>, which none of them matches: the exception leaves
  \<open>ensure_sprite_installed\<close>, \<open>run_sprite\<close> and \<open>main\<close>, and the installer is not called. The
  property asks for every spawn failure to count as a failed probe and to lead to
  installation.
\<close>

theorem probe_permission_error_escapes:
  "main (probing ''/home/u/.cargo/bin/sprite'' (Inl permission_error))
        [''sprite'', ''start''] (host None [''/home/u/.cargo/bin/sprite'']) =
     (Inl permission_error,
      (host None [''/home/u/.cargo/bin/sprite''])\<lparr>trace :=
         [Which ''sprite'',
          Exists ''/home/u/.cargo/bin/sprite'',
          Exists ''/home/u/.cargo/bin/sprite'',
          Spawn [''/home/u/.cargo/bin/sprite'', ''--version''] True (Some 10)]\<rparr>)"
  by (simp add: main_def run_sprite_raise ensure_run gsbp_run Let_def paths_def probing_def
      permission_error_def scen_defs)

end
